theory Spec2Isabelle
  imports Main
begin

section \<open>Set operators of the PostgreSQL query builder\<close>

text \<open>
  A shallow embedding of \<^verbatim>\<open>pg-core/query-builders/set-operators.ts\<close>: the class
  \<^verbatim>\<open>PgSetOperatorBuilder\<close> (the fluent methods), the class \<^verbatim>\<open>PgSetOperator\<close>
  (constructor, modifiers, \<^verbatim>\<open>getSQL\<close>, \<^verbatim>\<open>toSQL\<close>) and the free function
  \<^verbatim>\<open>setOperator\<close> with its six instances.
\<close>

subsection \<open>Data model\<close>

text \<open>\<^verbatim>\<open>type SetOperator = 'union' | 'intersect' | 'except'\<close> (line 27).\<close>

datatype SetOperator = OpUnion | OpIntersect | OpExcept

text \<open>The string value of the TypeScript literal type, as interpolated at line 280.\<close>

fun operator_keyword :: "SetOperator \<Rightarrow> string" where
  "operator_keyword OpUnion = ''union''"
| "operator_keyword OpIntersect = ''intersect''"
| "operator_keyword OpExcept = ''except''"

text \<open>
  The errors the file raises: the \<^verbatim>\<open>Error\<close> of line 192 (selected fields differ), the
  \<^verbatim>\<open>Error\<close> of line 349 (an undefined rest operand), the \<^verbatim>\<open>Error\<close> of line 294 (no
  session), and the \<^verbatim>\<open>TypeError\<close> of the JavaScript runtime when line 189 calls
  \<^verbatim>\<open>getSelectedFields\<close> on a value that has no such method.
\<close>

datatype error = ShapeMismatch | MissingOperand | SessionMissing | TypeError

text \<open>A column: the name of its table and its own name (\<^verbatim>\<open>chunk.name\<close>, line 265).\<close>

datatype PgColumn = PgColumn (col_table: string) (col_name: string)

text \<open>
  A limit or an offset is \<^verbatim>\<open>number | Placeholder\<close> (lines 84 to 86). Numbers are
  modelled as integers; a placeholder is an object carrying its name.
\<close>

datatype param_value = NumberV int | PlaceholderV string

text \<open>
  JavaScript truthiness, as the conditional expressions of lines 278 and 282 apply it to
  an optional \<^verbatim>\<open>number | Placeholder\<close>: \<^verbatim>\<open>undefined\<close> and the number 0 are falsy, every
  other number and every object are truthy.
\<close>

fun truthy :: "param_value option \<Rightarrow> bool" where
  "truthy None = False"
| "truthy (Some (NumberV n)) = (n \<noteq> 0)"
| "truthy (Some (PlaceholderV p)) = True"

text \<open>
  SQL fragments. An \<^verbatim>\<open>SQL\<close> object owns a mutable list \<^verbatim>\<open>queryChunks\<close>. The objects that
  callers hand to \<^verbatim>\<open>orderBy\<close> are shared with the caller and are mutated by \<^verbatim>\<open>getSQL\<close>
  (line 265), so they live in a store and are referred to by address (\<open>SQLRef\<close>). An
  \<^verbatim>\<open>SQL\<close> object that is created and embedded on the spot has no other owner and is
  written by value (\<open>SQLChunk\<close>). \<open>AliasedChunk\<close> is an \<^verbatim>\<open>SQL.Aliased\<close> object: the
  address of its \<^verbatim>\<open>sql\<close> and its \<^verbatim>\<open>fieldAlias\<close>. \<open>ValueChunk\<close> is a number or a
  placeholder embedded in a template; \<open>UndefinedChunk\<close> is an embedded \<^verbatim>\<open>undefined\<close>.
\<close>

type_synonym addr = nat

datatype chunk =
    StringChunk string
  | ColumnChunk PgColumn
  | SQLChunk "chunk list"
  | SQLRef addr
  | AliasedChunk addr string
  | ValueChunk param_value
  | UndefinedChunk

type_synonym store = "addr \<Rightarrow> chunk list"

text \<open>An entry of \<^verbatim>\<open>config.orderBy\<close>: \<^verbatim>\<open>PgColumn | SQL | SQL.Aliased\<close> (line 85).\<close>

datatype orderBy_item = OrdColumn PgColumn | OrdSQL addr | OrdAliased addr string

text \<open>
  \<^verbatim>\<open>Record<string, unknown>\<close>: an object as the list of its own properties in enumeration
  order.
\<close>

type_synonym selection = "(string \<times> chunk) list"

type_synonym PgSession = nat

text \<open>The two operations of a dialect that flattening a fragment needs.\<close>

record PgDialect =
  escapeName :: "string \<Rightarrow> string"
  escapeParam :: "nat \<Rightarrow> string"

text \<open>The \<^verbatim>\<open>config\<close> member (lines 82 to 87 and 170 to 175).\<close>

record Config =
  cfg_fields :: selection
  cfg_limit :: "param_value option"
  cfg_orderBy :: "orderBy_item list option"
  cfg_offset :: "param_value option"

text \<open>Modelled from the spec: the class of the single-table SELECT builder is missing from
  the sources. A base query is "any previously constructed query capable of producing a
  Fragment and exposing its RowShape, its execution session handle (possibly absent) and
  its join-nullability map"; \<open>bq_fields\<close> is that row shape (what
  \<^verbatim>\<open>getSelectedFields()\<close> returns and what \<^verbatim>\<open>config.fields\<close> holds), \<open>bq_sql\<close> the fragment
  that \<^verbatim>\<open>getSQL()\<close> returns.\<close>

record BaseQuery =
  bq_fields :: selection
  bq_session :: "PgSession option"
  bq_dialect :: PgDialect
  bq_joinsNotNullableMap :: "(string \<times> bool) list"
  bq_sql :: chunk

text \<open>
  A query is a base query or a \<^verbatim>\<open>PgSetOperator\<close> node with the members of lines 169 to
  184. The constructor stores one object \<^verbatim>\<open>fields\<close> both as \<^verbatim>\<open>this._.selectedFields\<close> and as
  \<^verbatim>\<open>this.config.fields\<close> (lines 199 to 208); the model keeps it once, in \<open>cfg_fields\<close>.
\<close>

datatype query =
    PgSelect BaseQuery
  | PgSetOperator
      (operator: SetOperator)
      (isAll: bool)
      (leftSelect: query)
      (rightSelect: query)
      (session: "PgSession option")
      (dialect: PgDialect)
      (joinsNotNullableMap: "(string \<times> bool) list")
      (config: Config)

subsection \<open>Construction\<close>

text \<open>Modelled from the spec: \<^verbatim>\<open>getSelectedFields\<close> is inherited from
  \<^verbatim>\<open>TypedQueryBuilder\<close>, which is missing from the sources; it returns the row shape of
  the query (\<^verbatim>\<open>getSelectedFields() -> RowShape\<close>), for a node the \<^verbatim>\<open>selectedFields\<close> that
  line 200 stores.\<close>

fun getSelectedFields :: "query \<Rightarrow> selection" where
  "getSelectedFields (PgSelect b) = bq_fields b"
| "getSelectedFields (PgSetOperator ty al l r s d j c) = cfg_fields c"

record SetOperatorConfig =
  soc_session :: "PgSession option"
  soc_dialect :: PgDialect
  soc_joinsNotNullableMap :: "(string \<times> bool) list"
  soc_fields :: selection

text \<open>\<^verbatim>\<open>getSetOperatorConfig\<close> (lines 93 to 100).\<close>

fun getSetOperatorConfig :: "query \<Rightarrow> SetOperatorConfig" where
  "getSetOperatorConfig (PgSelect b) =
     \<lparr>soc_session = bq_session b, soc_dialect = bq_dialect b,
      soc_joinsNotNullableMap = bq_joinsNotNullableMap b, soc_fields = bq_fields b\<rparr>"
| "getSetOperatorConfig (PgSetOperator ty al l r s d j c) =
     \<lparr>soc_session = s, soc_dialect = d, soc_joinsNotNullableMap = j, soc_fields = cfg_fields c\<rparr>"

text \<open>\<^verbatim>\<open>Object.keys\<close> of a record.\<close>

definition Object_keys :: "selection \<Rightarrow> string list" where
  "Object_keys obj = map fst obj"

text \<open>Modelled from the spec: the comparison inside \<^verbatim>\<open>haveSameKeys\<close>, which is missing
  from the sources. "Same keys, same order": the two key lists are walked position by
  position and must end together.\<close>

fun same_key_lists :: "string list \<Rightarrow> string list \<Rightarrow> bool" where
  "same_key_lists [] [] = True"
| "same_key_lists (k # ks) (k' # ks') = (k = k' \<and> same_key_lists ks ks')"
| "same_key_lists _ _ = False"

text \<open>Modelled from the spec: \<^verbatim>\<open>haveSameKeys\<close> is imported from \<^verbatim>\<open>utils.ts\<close>, which is
  missing from the sources. Two row shapes are compatible iff they have "identical
  field-name sets in identical order".\<close>

definition haveSameKeys :: "selection \<Rightarrow> selection \<Rightarrow> bool" where
  "haveSameKeys left right = same_key_lists (Object_keys left) (Object_keys right)"

text \<open>The six helpers that \<^verbatim>\<open>getPgSetOperators\<close> returns, at their TypeScript types.\<close>

type_synonym set_operator_fn = "query \<Rightarrow> query \<Rightarrow> query option list \<Rightarrow> error + query"

record PgSetOperators =
  reg_union :: set_operator_fn
  reg_unionAll :: set_operator_fn
  reg_intersect :: set_operator_fn
  reg_intersectAll :: set_operator_fn
  reg_except :: set_operator_fn
  reg_exceptAll :: set_operator_fn

text \<open>
  What a caller can pass in an operand position at run time: a query, or a function that
  takes the helpers and returns a query (or throws).
\<close>

datatype operand = Literal query | Deferred "PgSetOperators \<Rightarrow> error + query"

text \<open>
  The constructor of \<^verbatim>\<open>PgSetOperator\<close> (lines 180 to 209). A function value has no
  \<^verbatim>\<open>getSelectedFields\<close> method, so line 189 raises a \<^verbatim>\<open>TypeError\<close> on it.
\<close>

definition new_PgSetOperator :: "SetOperator \<Rightarrow> bool \<Rightarrow> query \<Rightarrow> operand \<Rightarrow> error + query" where
  "new_PgSetOperator ty al leftSel rightSel =
     (case rightSel of
        Deferred f \<Rightarrow> Inl TypeError
      | Literal r \<Rightarrow>
          if \<not> haveSameKeys (getSelectedFields leftSel) (getSelectedFields r)
          then Inl ShapeMismatch
          else
            let c = getSetOperatorConfig leftSel
            in Inr (PgSetOperator ty al leftSel r
                      (soc_session c) (soc_dialect c) (soc_joinsNotNullableMap c)
                      \<lparr>cfg_fields = soc_fields c, cfg_limit = None,
                       cfg_orderBy = None, cfg_offset = None\<rparr>))"

text \<open>
  The free function \<^verbatim>\<open>setOperator\<close> (lines 330 to 353). An entry of the rest list can be
  \<^verbatim>\<open>undefined\<close>, which is \<open>None\<close>. Line 349 is evaluated before the constructor call of
  line 351.
\<close>

fun setOperator ::
  "SetOperator \<Rightarrow> bool \<Rightarrow> query \<Rightarrow> operand \<Rightarrow> operand option list \<Rightarrow> error + query" where
  "setOperator ty al leftSel rightSel [] = new_PgSetOperator ty al leftSel rightSel"
| "setOperator ty al leftSel rightSel (sel # rest) =
     (case sel of
        None \<Rightarrow> Inl MissingOperand
      | Some s \<Rightarrow>
          (case new_PgSetOperator ty al leftSel rightSel of
             Inl e \<Rightarrow> Inl e
           | Inr node \<Rightarrow> setOperator ty al node s rest))"

text \<open>The six exported instances (lines 355 to 365).\<close>

definition union_fn :: "query \<Rightarrow> operand \<Rightarrow> operand option list \<Rightarrow> error + query" where
  "union_fn = setOperator OpUnion False"

definition unionAll :: "query \<Rightarrow> operand \<Rightarrow> operand option list \<Rightarrow> error + query" where
  "unionAll = setOperator OpUnion True"

definition intersect :: "query \<Rightarrow> operand \<Rightarrow> operand option list \<Rightarrow> error + query" where
  "intersect = setOperator OpIntersect False"

definition intersectAll :: "query \<Rightarrow> operand \<Rightarrow> operand option list \<Rightarrow> error + query" where
  "intersectAll = setOperator OpIntersect True"

definition except :: "query \<Rightarrow> operand \<Rightarrow> operand option list \<Rightarrow> error + query" where
  "except = setOperator OpExcept False"

definition exceptAll :: "query \<Rightarrow> operand \<Rightarrow> operand option list \<Rightarrow> error + query" where
  "exceptAll = setOperator OpExcept True"

text \<open>
  A helper as a callback sees it, at its TypeScript parameter types: the operands it is
  given are queries.
\<close>

definition typed :: "(query \<Rightarrow> operand \<Rightarrow> operand option list \<Rightarrow> error + query) \<Rightarrow> set_operator_fn" where
  "typed f = (\<lambda>l r rest. f l (Literal r) (map (map_option Literal) rest))"

text \<open>\<^verbatim>\<open>getPgSetOperators\<close> (lines 29 to 38).\<close>

definition getPgSetOperators :: PgSetOperators where
  "getPgSetOperators =
     \<lparr>reg_union = typed union_fn, reg_unionAll = typed unionAll,
      reg_intersect = typed intersect, reg_intersectAll = typed intersectAll,
      reg_except = typed except, reg_exceptAll = typed exceptAll\<rparr>"

text \<open>
  The private method \<^verbatim>\<open>PgSetOperatorBuilder.setOperator\<close> (lines 102 to 115): a function
  operand is called with the helpers, then the node is constructed.
\<close>

definition builder_setOperator :: "SetOperator \<Rightarrow> bool \<Rightarrow> query \<Rightarrow> operand \<Rightarrow> error + query" where
  "builder_setOperator ty al this rightSel =
     (case rightSel of
        Deferred f \<Rightarrow>
          (case f getPgSetOperators of
             Inl e \<Rightarrow> Inl e
           | Inr rightSelectOrig \<Rightarrow> new_PgSetOperator ty al this (Literal rightSelectOrig))
      | Literal rightSelectOrig \<Rightarrow> new_PgSetOperator ty al this (Literal rightSelectOrig))"

text \<open>The six fluent methods (lines 117 to 127).\<close>

definition m_union :: "query \<Rightarrow> operand \<Rightarrow> error + query" where
  "m_union = builder_setOperator OpUnion False"

definition m_unionAll :: "query \<Rightarrow> operand \<Rightarrow> error + query" where
  "m_unionAll = builder_setOperator OpUnion True"

definition m_intersect :: "query \<Rightarrow> operand \<Rightarrow> error + query" where
  "m_intersect = builder_setOperator OpIntersect False"

definition m_intersectAll :: "query \<Rightarrow> operand \<Rightarrow> error + query" where
  "m_intersectAll = builder_setOperator OpIntersect True"

definition m_except :: "query \<Rightarrow> operand \<Rightarrow> error + query" where
  "m_except = builder_setOperator OpExcept False"

definition m_exceptAll :: "query \<Rightarrow> operand \<Rightarrow> error + query" where
  "m_exceptAll = builder_setOperator OpExcept True"

subsection \<open>The fragment model\<close>

text \<open>
  The \<^verbatim>\<open>sql\<close> template tag, \<^verbatim>\<open>sql.raw\<close> and \<^verbatim>\<open>sql.join\<close> are imported from
  \<^verbatim>\<open>~/index.ts\<close>, which is missing from the sources. The spec describes the fragment
  model as one that "supports template-style composition (embedding sub-fragments and raw
  literal text), a \<^verbatim>\<open>.queryChunks\<close> ordered list for structural traversal/rewriting, and a
  join operation that interleaves a separator fragment between each element of a
  sequence".
\<close>

text \<open>Modelled from the spec: the chunk list of a template ("template-style composition").
  A template with literal parts \<open>s0, ..., sn\<close> and embedded values \<open>p1, ..., pn\<close> has the
  chunks \<open>s0, p1, s1, ..., pn, sn\<close>.\<close>

fun template_chunks :: "string list \<Rightarrow> chunk list \<Rightarrow> chunk list" where
  "template_chunks [] ps = []"
| "template_chunks (s # ss) [] = [StringChunk s]"
| "template_chunks (s # ss) (p # ps) = StringChunk s # p # template_chunks ss ps"

text \<open>Modelled from the spec: the \<^verbatim>\<open>sql\<close> template tag, given the literal parts and the
  embedded values of the template; it makes a new fragment.\<close>

definition sql :: "string list \<Rightarrow> chunk list \<Rightarrow> chunk" where
  "sql strings params = SQLChunk (template_chunks strings params)"

text \<open>Modelled from the spec: \<^verbatim>\<open>sql.raw\<close>, a fragment of "raw literal text".\<close>

definition sql_raw :: "string \<Rightarrow> chunk" where
  "sql_raw str = SQLChunk [StringChunk str]"

text \<open>Modelled from the spec: the chunk list of a join, which "interleaves a separator
  fragment between each element of a sequence".\<close>

fun join_chunks :: "chunk list \<Rightarrow> chunk \<Rightarrow> chunk list" where
  "join_chunks [] sep = []"
| "join_chunks [c] sep = [c]"
| "join_chunks (c # cs) sep = c # sep # join_chunks cs sep"

text \<open>Modelled from the spec: \<^verbatim>\<open>sql.join\<close>.\<close>

definition sql_join :: "chunk list \<Rightarrow> chunk \<Rightarrow> chunk" where
  "sql_join chunks sep = SQLChunk (join_chunks chunks sep)"

text \<open>An optional limit or offset embedded in a template.\<close>

fun embed :: "param_value option \<Rightarrow> chunk" where
  "embed None = UndefinedChunk"
| "embed (Some v) = ValueChunk v"

subsection \<open>Modifiers\<close>

text \<open>
  \<^verbatim>\<open>orderBy\<close> with a list of columns (line 227), \<^verbatim>\<open>limit\<close> (lines 232 to 235) and
  \<^verbatim>\<open>offset\<close> (lines 237 to 240). Each assigns one member of \<^verbatim>\<open>config\<close> and returns the
  node. On a base query the three methods belong to the SELECT builder, which is outside
  this file: there the model returns the query as it is.
\<close>

fun orderBy :: "orderBy_item list \<Rightarrow> query \<Rightarrow> query" where
  "orderBy columns (PgSetOperator ty al l r s d j c) =
     PgSetOperator ty al l r s d j (c\<lparr>cfg_orderBy := Some columns\<rparr>)"
| "orderBy columns (PgSelect b) = PgSelect b"

fun limit :: "param_value \<Rightarrow> query \<Rightarrow> query" where
  "limit n (PgSetOperator ty al l r s d j c) =
     PgSetOperator ty al l r s d j (c\<lparr>cfg_limit := Some n\<rparr>)"
| "limit n (PgSelect b) = PgSelect b"

fun offset :: "param_value \<Rightarrow> query \<Rightarrow> query" where
  "offset n (PgSetOperator ty al l r s d j c) =
     PgSetOperator ty al l r s d j (c\<lparr>cfg_offset := Some n\<rparr>)"
| "offset n (PgSelect b) = PgSelect b"

subsection \<open>Rendering to a fragment\<close>

text \<open>
  The inner loop of lines 261 to 267 over the indices of \<^verbatim>\<open>orderBy.queryChunks\<close>: a chunk
  that is a column is overwritten, in the list itself, with \<^verbatim>\<open>sql.raw(chunk.name)\<close>.
\<close>

function rewrite_queryChunks :: "nat \<Rightarrow> chunk list \<Rightarrow> chunk list" where
  "rewrite_queryChunks i qc =
     (if i < length qc
      then rewrite_queryChunks (Suc i)
             (case qc ! i of
                ColumnChunk col \<Rightarrow> qc[i := sql_raw (col_name col)]
              | _ \<Rightarrow> qc)
      else qc)"
  by pat_completeness auto
termination
  by (relation "measure (\<lambda>(i, qc). length qc - i)") (auto split: chunk.splits)

declare rewrite_queryChunks.simps [simp del]

text \<open>
  The loop of lines 257 to 273 over \<^verbatim>\<open>config.orderBy\<close>, with the list \<^verbatim>\<open>orderByValues\<close>
  and the store as its state.
\<close>

fun orderBy_loop :: "orderBy_item list \<Rightarrow> chunk list \<Rightarrow> store \<Rightarrow> chunk list \<times> store" where
  "orderBy_loop [] orderByValues h = (orderByValues, h)"
| "orderBy_loop (OrdColumn col # rest) orderByValues h =
     orderBy_loop rest (orderByValues @ [sql_raw (col_name col)]) h"
| "orderBy_loop (OrdSQL a # rest) orderByValues h =
     orderBy_loop rest (orderByValues @ [sql ['''', ''''] [SQLRef a]])
       (h(a := rewrite_queryChunks 0 (h a)))"
| "orderBy_loop (OrdAliased a alias # rest) orderByValues h =
     orderBy_loop rest (orderByValues @ [sql ['''', ''''] [AliasedChunk a alias]]) h"

text \<open>Lines 251 to 276: \<^verbatim>\<open>orderBySql\<close> stays \<^verbatim>\<open>undefined\<close> unless the list is non-empty.\<close>

definition build_orderBySql :: "Config \<Rightarrow> store \<Rightarrow> chunk \<times> store" where
  "build_orderBySql c h =
     (case cfg_orderBy c of
        None \<Rightarrow> (UndefinedChunk, h)
      | Some obs \<Rightarrow>
          if length obs > 0
          then (let (orderByValues, h') = orderBy_loop obs [] h
                in (sql ['' order by '', '' ''] [sql_join orderByValues (sql ['', ''] [])], h'))
          else (UndefinedChunk, h))"

text \<open>Line 278.\<close>

definition build_limitSql :: "Config \<Rightarrow> chunk" where
  "build_limitSql c =
     (if truthy (cfg_limit c) then sql ['' limit '', ''''] [embed (cfg_limit c)]
      else UndefinedChunk)"

text \<open>Line 280.\<close>

definition build_operatorChunk :: "SetOperator \<Rightarrow> bool \<Rightarrow> chunk" where
  "build_operatorChunk ty al =
     sql_raw (operator_keyword ty @ '' '' @ (if al then ''all '' else ''''))"

text \<open>Line 282.\<close>

definition build_offsetSql :: "Config \<Rightarrow> chunk" where
  "build_offsetSql c =
     (if truthy (cfg_offset c) then sql ['' offset '', ''''] [embed (cfg_offset c)]
      else UndefinedChunk)"

text \<open>
  \<^verbatim>\<open>getSQL\<close> (lines 247 to 285), in the order in which the source evaluates: the left
  operand, the right operand, the ORDER BY loop, then the final template. A base query
  returns its fragment and leaves the store alone.
\<close>

fun getSQL :: "query \<Rightarrow> store \<Rightarrow> chunk \<times> store" where
  "getSQL (PgSelect b) h = (bq_sql b, h)"
| "getSQL (PgSetOperator ty al l r s d j c) h =
     (let (lf, h1) = getSQL l h;
          leftChunk = sql [''('', '') ''] [lf];
          (rf, h2) = getSQL r h1;
          rightChunk = sql [''('', '')''] [rf];
          (orderBySql, h3) = build_orderBySql c h2;
          limitSql = build_limitSql c;
          operatorChunk = build_operatorChunk ty al;
          offsetSql = build_offsetSql c
      in (sql ['''', '''', '''', '''', '''', '''', '''']
            [leftChunk, operatorChunk, rightChunk, orderBySql, limitSql, offsetSql], h3))"

subsection \<open>Flattening a fragment to a query\<close>

text \<open>
  The text of a query with its parameters still in place: a character, or the position of
  a parameter together with the value bound there.
\<close>

datatype tok = Ch char | Hole param_value

text \<open>Modelled from the spec: the traversal inside \<^verbatim>\<open>dialect.sqlToQuery\<close>, which is
  missing from the sources. It is "the final lowering step from Fragment tree to a flat
  executable query plus its parameters", "flattening to a single parameterized string".
  Literal text is copied, a column is written qualified by its table (the comment of
  line 255: the template replaces \<^verbatim>\<open>${table.column}\<close> with \<^verbatim>\<open>`table`.`column`\<close>), an aliased
  expression is written as its alias, a number or placeholder becomes a parameter,
  \<^verbatim>\<open>undefined\<close> contributes nothing, and a nested fragment is flattened in place.
  Following a reference costs one unit of fuel, so that a store with a cycle yields
  \<open>None\<close>.\<close>

fun flatten :: "PgDialect \<Rightarrow> nat \<Rightarrow> store \<Rightarrow> chunk \<Rightarrow> tok list option"
  and flatten_list :: "PgDialect \<Rightarrow> nat \<Rightarrow> store \<Rightarrow> chunk list \<Rightarrow> tok list option" where
  "flatten d n h (StringChunk str) = Some (map Ch str)"
| "flatten d n h (ColumnChunk col) =
     Some (map Ch (escapeName d (col_table col) @ ''.'' @ escapeName d (col_name col)))"
| "flatten d n h (SQLChunk cs) = flatten_list d n h cs"
| "flatten d 0 h (SQLRef a) = None"
| "flatten d (Suc n) h (SQLRef a) = flatten_list d n h (h a)"
| "flatten d n h (AliasedChunk a alias) = Some (map Ch (escapeName d alias))"
| "flatten d n h (ValueChunk v) = Some [Hole v]"
| "flatten d n h UndefinedChunk = Some []"
| "flatten_list d n h [] = Some []"
| "flatten_list d n h (c # cs) =
     (case flatten d n h c of
        None \<Rightarrow> None
      | Some ts \<Rightarrow>
          (case flatten_list d n h cs of
             None \<Rightarrow> None
           | Some us \<Rightarrow> Some (ts @ us)))"

text \<open>Modelled from the spec: the "sql text" of the flat query, with the parameters
  numbered from left to right.\<close>

fun number_toks :: "PgDialect \<Rightarrow> nat \<Rightarrow> tok list \<Rightarrow> string" where
  "number_toks d i [] = []"
| "number_toks d i (Ch c # ts) = c # number_toks d i ts"
| "number_toks d i (Hole v # ts) = escapeParam d i @ number_toks d (Suc i) ts"

text \<open>Modelled from the spec: the "parameter list" of the flat query.\<close>

fun hole_values :: "tok list \<Rightarrow> param_value list" where
  "hole_values [] = []"
| "hole_values (Ch c # ts) = hole_values ts"
| "hole_values (Hole v # ts) = v # hole_values ts"

record Query =
  q_sql :: string
  q_params :: "param_value list"

text \<open>Modelled from the spec: \<^verbatim>\<open>dialect.sqlToQuery\<close>,
  \<^verbatim>\<open>sqlToQuery(Fragment) -> {sql text, parameter list, type-tag list}\<close>, without the type
  tags that \<^verbatim>\<open>toSQL\<close> strips.\<close>

definition sqlToQuery :: "PgDialect \<Rightarrow> nat \<Rightarrow> store \<Rightarrow> chunk \<Rightarrow> Query option" where
  "sqlToQuery d n h frag =
     map_option (\<lambda>ts. \<lparr>q_sql = number_toks d 0 ts, q_params = hole_values ts\<rparr>)
       (flatten d n h frag)"

text \<open>The dialect a query renders with (\<^verbatim>\<open>this.dialect\<close>).\<close>

fun this_dialect :: "query \<Rightarrow> PgDialect" where
  "this_dialect (PgSelect b) = bq_dialect b"
| "this_dialect (PgSetOperator ty al l r s d j c) = d"

text \<open>
  \<^verbatim>\<open>toSQL\<close> (lines 242 to 245): the fragment is built first, with its effect on the store,
  and flattened afterwards, in the store that \<^verbatim>\<open>getSQL\<close> has left. The first argument is
  the fuel of the flattening.
\<close>

definition toSQL :: "nat \<Rightarrow> query \<Rightarrow> store \<Rightarrow> Query option \<times> store" where
  "toSQL n q h = (let (frag, h') = getSQL q h in (sqlToQuery (this_dialect q) n h' frag, h'))"

subsection \<open>Notions used to state the properties\<close>

text \<open>
  What the spec calls the Chain Builder's fold: the operands are combined from left to
  right, each with the node built so far, stopping at the first failure.
\<close>

fun combine_chain :: "SetOperator \<Rightarrow> bool \<Rightarrow> query \<Rightarrow> operand list \<Rightarrow> error + query" where
  "combine_chain ty al acc [] = Inr acc"
| "combine_chain ty al acc (q # qs) =
     (case new_PgSetOperator ty al acc q of
        Inl e \<Rightarrow> Inl e
      | Inr node \<Rightarrow> combine_chain ty al node qs)"

text \<open>The text \<open>((q0) op (q1)) op (q2) ...\<close> over the texts of the operands.\<close>

fun chain_toks :: "string \<Rightarrow> tok list \<Rightarrow> tok list list \<Rightarrow> tok list" where
  "chain_toks kw acc [] = acc"
| "chain_toks kw acc (t # ts) =
     chain_toks kw (map Ch ''('' @ acc @ map Ch '') '' @ map Ch kw @ map Ch ''('' @ t @ map Ch '')'') ts"

text \<open>The keyword part of a node: the operator, a space, and \<open>all \<close> for the ALL variants.\<close>

definition keyword_text :: "SetOperator \<Rightarrow> bool \<Rightarrow> string" where
  "keyword_text ty al = operator_keyword ty @ '' '' @ (if al then ''all '' else '''')"

text \<open>Concatenation of pieces each of which may fail to flatten.\<close>

fun concat_opt :: "'a list option list \<Rightarrow> 'a list option" where
  "concat_opt [] = Some []"
| "concat_opt (None # xs) = None"
| "concat_opt (Some x # xs) = map_option ((@) x) (concat_opt xs)"

text \<open>A column chunk replaced by the raw fragment of its bare name; any other chunk kept.\<close>

fun bare_column :: "chunk \<Rightarrow> chunk" where
  "bare_column (ColumnChunk col) = sql_raw (col_name col)"
| "bare_column c = c"

text \<open>The chunk that one entry of \<^verbatim>\<open>config.orderBy\<close> adds to \<^verbatim>\<open>orderByValues\<close>.\<close>

fun orderBy_value :: "orderBy_item \<Rightarrow> chunk" where
  "orderBy_value (OrdColumn col) = sql_raw (col_name col)"
| "orderBy_value (OrdSQL a) = sql ['''', ''''] [SQLRef a]"
| "orderBy_value (OrdAliased a alias) = sql ['''', ''''] [AliasedChunk a alias]"

text \<open>The addresses of the \<^verbatim>\<open>SQL\<close> objects in an ORDER BY list, and in a whole tree.\<close>

fun sql_targets :: "orderBy_item list \<Rightarrow> addr set" where
  "sql_targets [] = {}"
| "sql_targets (OrdSQL a # rest) = insert a (sql_targets rest)"
| "sql_targets (OrdColumn col # rest) = sql_targets rest"
| "sql_targets (OrdAliased a alias # rest) = sql_targets rest"

definition orderBy_targets :: "Config \<Rightarrow> addr set" where
  "orderBy_targets c = (case cfg_orderBy c of None \<Rightarrow> {} | Some obs \<Rightarrow> sql_targets obs)"

fun targets :: "query \<Rightarrow> addr set" where
  "targets (PgSelect b) = {}"
| "targets (PgSetOperator ty al l r s d j c) = targets l \<union> targets r \<union> orderBy_targets c"

text \<open>
  The fragment that \<^verbatim>\<open>getSQL\<close> returns, written without the store: the fragment refers to
  the caller's expressions by address and does not depend on their contents.
\<close>

definition orderBy_fragment :: "Config \<Rightarrow> chunk" where
  "orderBy_fragment c =
     (case cfg_orderBy c of
        None \<Rightarrow> UndefinedChunk
      | Some obs \<Rightarrow>
          if length obs > 0
          then sql ['' order by '', '' ''] [sql_join (map orderBy_value obs) (sql ['', ''] [])]
          else UndefinedChunk)"

fun fragment :: "query \<Rightarrow> chunk" where
  "fragment (PgSelect b) = bq_sql b"
| "fragment (PgSetOperator ty al l r s d j c) =
     sql ['''', '''', '''', '''', '''', '''', '''']
       [sql [''('', '') ''] [fragment l], build_operatorChunk ty al,
        sql [''('', '')''] [fragment r],
        orderBy_fragment c, build_limitSql c, build_offsetSql c]"

text \<open>The store in which the objects at the given addresses have been rewritten.\<close>

definition rewrite_at :: "addr set \<Rightarrow> store \<Rightarrow> store" where
  "rewrite_at A h = (\<lambda>a. if a \<in> A then map bare_column (h a) else h a)"

subsection \<open>Values used in the worked examples\<close>

text \<open>A dialect that wraps a name in double quotes and writes every parameter as \<open>$\<close>.\<close>

definition exampleDialect :: PgDialect where
  "exampleDialect =
     \<lparr>escapeName = (\<lambda>n. [CHR 0x22] @ n @ [CHR 0x22]), escapeParam = (\<lambda>i. ''$'')\<rparr>"

text \<open>A name between double quotes.\<close>

definition quoted :: "string \<Rightarrow> string" where
  "quoted n = [CHR 0x22] @ n @ [CHR 0x22]"

definition users_id :: PgColumn where
  "users_id = PgColumn ''users'' ''id''"

definition users_name :: PgColumn where
  "users_name = PgColumn ''users'' ''name''"

text \<open>Two base queries that select \<open>{id, name}\<close> and one that selects \<open>{id}\<close>.\<close>

definition selectA :: query where
  "selectA = PgSelect
     \<lparr>bq_fields = [(''id'', ColumnChunk users_id), (''name'', ColumnChunk users_name)],
      bq_session = Some 7, bq_dialect = exampleDialect,
      bq_joinsNotNullableMap = [(''users'', True)],
      bq_sql = SQLChunk [StringChunk ''select A'']\<rparr>"

definition selectB :: query where
  "selectB = PgSelect
     \<lparr>bq_fields = [(''id'', ColumnChunk (PgColumn ''admins'' ''id'')),
                  (''name'', ColumnChunk (PgColumn ''admins'' ''name''))],
      bq_session = None, bq_dialect = \<lparr>escapeName = (\<lambda>n. n), escapeParam = (\<lambda>i. ''?'')\<rparr>,
      bq_joinsNotNullableMap = [(''admins'', False)],
      bq_sql = SQLChunk [StringChunk ''select B'']\<rparr>"

definition selectC :: query where
  "selectC = PgSelect
     \<lparr>bq_fields = [(''id'', ColumnChunk users_id)],
      bq_session = None, bq_dialect = exampleDialect,
      bq_joinsNotNullableMap = [],
      bq_sql = SQLChunk [StringChunk ''select C'']\<rparr>"

text \<open>The node that \<^verbatim>\<open>union(selectA, selectB)\<close> builds.\<close>

definition unionAB :: query where
  "unionAB = PgSetOperator OpUnion False selectA selectB (Some 7) exampleDialect
     [(''users'', True)]
     \<lparr>cfg_fields = [(''id'', ColumnChunk users_id), (''name'', ColumnChunk users_name)],
      cfg_limit = None, cfg_orderBy = None, cfg_offset = None\<rparr>"

text \<open>
  A store with two caller-made expressions: at address 0 the fragment
  \<^verbatim>\<open>sql`${users.name} desc`\<close>, at address 1 the fragment
  \<^verbatim>\<open>sql`${sql`lower(${users.name})`} desc`\<close>.
\<close>

definition exampleStore :: store where
  "exampleStore =
     (\<lambda>a. [])
       (0 := [StringChunk '''', ColumnChunk users_name, StringChunk '' desc''],
        1 := [StringChunk '''',
              SQLChunk [StringChunk ''lower('', ColumnChunk users_name, StringChunk '')''],
              StringChunk '' desc''])"

text \<open>A callback operand that builds a nested combination with the helpers it receives.\<close>

definition exampleCallback :: "PgSetOperators \<Rightarrow> error + query" where
  "exampleCallback ops = reg_intersect ops selectB selectB []"

section \<open>Auxiliary facts\<close>

subsection \<open>Construction\<close>

lemma same_key_lists_eq: "same_key_lists ks ks' = (ks = ks')"
  by (induction ks ks' rule: same_key_lists.induct) auto

lemma haveSameKeys_iff:
  "haveSameKeys left right = (map fst left = map fst right)"
  by (simp add: haveSameKeys_def Object_keys_def same_key_lists_eq)

lemma new_PgSetOperator_Literal:
  "new_PgSetOperator ty al l (Literal r) =
     (if map fst (getSelectedFields l) = map fst (getSelectedFields r)
      then Inr (PgSetOperator ty al l r
                 (soc_session (getSetOperatorConfig l)) (soc_dialect (getSetOperatorConfig l))
                 (soc_joinsNotNullableMap (getSetOperatorConfig l))
                 \<lparr>cfg_fields = soc_fields (getSetOperatorConfig l), cfg_limit = None,
                  cfg_orderBy = None, cfg_offset = None\<rparr>)
      else Inl ShapeMismatch)"
  by (simp add: new_PgSetOperator_def haveSameKeys_iff Let_def)

lemma soc_fields_getSelectedFields:
  "soc_fields (getSetOperatorConfig q) = getSelectedFields q"
  by (cases q) simp_all

lemma setOperator_all_defined:
  "setOperator ty al l r (map Some ss) = combine_chain ty al l (r # ss)"
  by (induction ss arbitrary: l r) (auto split: sum.splits)

lemma setOperator_first_undefined:
  "setOperator ty al l r (map Some ss @ None # post) =
     (case combine_chain ty al l (butlast (r # ss)) of
        Inl e \<Rightarrow> Inl e
      | Inr node \<Rightarrow> Inl MissingOperand)"
  by (induction ss arbitrary: l r) (auto split: sum.splits)

lemma getSelectedFields_new:
  "new_PgSetOperator ty al l r = Inr node \<Longrightarrow> getSelectedFields node = getSelectedFields l"
  by (cases r)
     (auto simp: new_PgSetOperator_def Let_def soc_fields_getSelectedFields split: if_splits)

lemma combine_chain_succeeds_iff:
  "(\<exists>node. combine_chain ty al acc (map Literal qs) = Inr node) =
     (\<forall>q \<in> set qs. haveSameKeys (getSelectedFields acc) (getSelectedFields q))"
proof (induction qs arbitrary: acc)
  case Nil
  show ?case by simp
next
  case (Cons q qs)
  show ?case
  proof (cases "new_PgSetOperator ty al acc (Literal q)")
    case (Inl e)
    then have "\<not> haveSameKeys (getSelectedFields acc) (getSelectedFields q)"
      by (auto simp: new_PgSetOperator_def Let_def split: if_splits)
    with Inl show ?thesis by simp
  next
    case (Inr node)
    then have same: "haveSameKeys (getSelectedFields acc) (getSelectedFields q)"
      by (auto simp: new_PgSetOperator_def Let_def split: if_splits)
    have "getSelectedFields node = getSelectedFields acc"
      using Inr by (rule getSelectedFields_new)
    with Inr same Cons.IH [of node] show ?thesis by simp
  qed
qed

lemma combine_chain_fields:
  "combine_chain ty al acc ops = Inr node \<Longrightarrow> getSelectedFields node = getSelectedFields acc"
proof (induction ops arbitrary: acc)
  case Nil
  then show ?case by simp
next
  case (Cons q ops)
  from Cons.prems obtain node1 where n1: "new_PgSetOperator ty al acc q = Inr node1"
    and ch: "combine_chain ty al node1 ops = Inr node"
    by (auto split: sum.splits)
  from Cons.IH [OF ch] getSelectedFields_new [OF n1] show ?case by simp
qed

lemma map_Some_Literal: "map (\<lambda>q. Some (Literal q)) qs = map Some (map Literal qs)"
  by simp

lemma setOperator_undefined_fails:
  "None \<in> set rest \<Longrightarrow> isl (setOperator ty al l r rest)"
  by (induction rest arbitrary: l r) (auto split: sum.splits option.splits)

lemma setOperator_function_fails:
  "r = Deferred f \<or> Some (Deferred f) \<in> set rest \<Longrightarrow> isl (setOperator ty al l r rest)"
proof (induction rest arbitrary: l r)
  case Nil
  then show ?case by (simp add: new_PgSetOperator_def)
next
  case (Cons sel rest)
  show ?case
  proof (cases sel)
    case None
    then show ?thesis by simp
  next
    case (Some s)
    show ?thesis
    proof (cases "new_PgSetOperator ty al l r")
      case (Inl e)
      with Some show ?thesis by simp
    next
      case (Inr node)
      then have "r \<noteq> Deferred f" by (auto simp: new_PgSetOperator_def)
      with Cons.prems Some have "s = Deferred f \<or> Some (Deferred f) \<in> set rest" by auto
      from Cons.IH [OF this] Some Inr show ?thesis by simp
    qed
  qed
qed

subsection \<open>The effect of rendering on the store\<close>

lemma bare_column_idem: "bare_column (bare_column c) = bare_column c"
  by (cases c) (simp_all add: sql_raw_def)

lemma rewrite_queryChunks_eq:
  "rewrite_queryChunks i qc = take i qc @ map bare_column (drop i qc)"
proof (induction i qc rule: rewrite_queryChunks.induct)
  case (1 i qc)
  show ?case
  proof (cases "i < length qc")
    case False
    then show ?thesis by (subst rewrite_queryChunks.simps) simp
  next
    case True
    let ?qc' = "case qc ! i of ColumnChunk col \<Rightarrow> qc[i := sql_raw (col_name col)] | _ \<Rightarrow> qc"
    have upd: "?qc' = qc[i := bare_column (qc ! i)]"
      by (cases "qc ! i") (simp_all, (metis list_update_id)+)
    have "rewrite_queryChunks i qc = rewrite_queryChunks (Suc i) ?qc'"
      using True by (subst rewrite_queryChunks.simps) simp
    also have "\<dots> = take (Suc i) ?qc' @ map bare_column (drop (Suc i) ?qc')"
      using True by (rule "1.IH")
    also have "\<dots> = take i qc @ map bare_column (drop i qc)"
    proof -
      have d: "drop i qc = qc ! i # drop (Suc i) qc"
        using True by (simp add: Cons_nth_drop_Suc)
      have t: "take (Suc i) (qc[i := bare_column (qc ! i)]) = take i qc @ [bare_column (qc ! i)]"
        using True by (simp add: take_Suc_conv_app_nth)
      show ?thesis unfolding upd t by (simp add: d)
    qed
    finally show ?thesis .
  qed
qed

lemma rewrite_queryChunks_0: "rewrite_queryChunks 0 qc = map bare_column qc"
  by (simp add: rewrite_queryChunks_eq)

lemma rewrite_at_empty: "rewrite_at {} h = h"
  by (simp add: rewrite_at_def)

lemma rewrite_at_rewrite_at: "rewrite_at A (rewrite_at B h) = rewrite_at (A \<union> B) h"
  by (auto simp: rewrite_at_def fun_eq_iff bare_column_idem)

lemma fun_upd_rewrite: "h(a := map bare_column (h a)) = rewrite_at {a} h"
  by (auto simp: rewrite_at_def fun_eq_iff)

lemma orderBy_loop_eq:
  "orderBy_loop obs vals h = (vals @ map orderBy_value obs, rewrite_at (sql_targets obs) h)"
proof (induction obs vals h rule: orderBy_loop.induct)
  case (3 a rest vals h)
  then show ?case
    by (simp add: rewrite_queryChunks_0 fun_upd_rewrite rewrite_at_rewrite_at)
qed (simp_all add: rewrite_at_empty)


lemma build_orderBySql_eq:
  "build_orderBySql c h = (orderBy_fragment c, rewrite_at (orderBy_targets c) h)"
  by (simp add: build_orderBySql_def orderBy_fragment_def orderBy_targets_def orderBy_loop_eq
        rewrite_at_empty split: option.splits)

lemma getSQL_eq: "getSQL q h = (fragment q, rewrite_at (targets q) h)"
  by (induction q arbitrary: h)
     (simp_all add: rewrite_at_empty build_orderBySql_eq rewrite_at_rewrite_at Un_ac)

lemma sql_targets_mem: "OrdSQL a \<in> set obs \<Longrightarrow> a \<in> sql_targets obs"
  by (induction obs rule: sql_targets.induct) auto

lemma map_bare_column_changes:
  "ColumnChunk col \<in> set cs \<Longrightarrow> map bare_column cs \<noteq> cs"
proof
  assume mem: "ColumnChunk col \<in> set cs" and eq: "map bare_column cs = cs"
  from eq have "map bare_column cs = map (\<lambda>c. c) cs" by simp
  then have "\<forall>c \<in> set cs. bare_column c = c" by (simp only: map_eq_conv)
  with mem have "bare_column (ColumnChunk col) = ColumnChunk col" by blast
  then show False by (simp add: sql_raw_def)
qed

lemma no_column_after_rewrite: "ColumnChunk col \<notin> set (map bare_column cs)"
proof
  assume "ColumnChunk col \<in> set (map bare_column cs)"
  then obtain c where "bare_column c = ColumnChunk col" by auto
  then show False by (cases c) (simp_all add: sql_raw_def)
qed

subsection \<open>Flattening\<close>

lemma flatten_limitSql:
  "flatten d n h (build_limitSql c) =
     Some (case cfg_limit c of
             None \<Rightarrow> []
           | Some v \<Rightarrow> if truthy (Some v) then map Ch '' limit '' @ [Hole v] else [])"
  by (cases "cfg_limit c") (simp_all add: build_limitSql_def sql_def)

lemma flatten_offsetSql:
  "flatten d n h (build_offsetSql c) =
     Some (case cfg_offset c of
             None \<Rightarrow> []
           | Some v \<Rightarrow> if truthy (Some v) then map Ch '' offset '' @ [Hole v] else [])"
  by (cases "cfg_offset c") (simp_all add: build_offsetSql_def sql_def)

lemma flatten_orderBy_fragment:
  "flatten d n h (orderBy_fragment c) =
     (case cfg_orderBy c of
        None \<Rightarrow> Some []
      | Some obs \<Rightarrow>
          if obs = [] then Some []
          else map_option (\<lambda>ts. map Ch '' order by '' @ ts @ map Ch '' '')
                 (flatten_list d n h (join_chunks (map orderBy_value obs) (sql ['', ''] []))))"
  by (cases "cfg_orderBy c")
     (auto simp: orderBy_fragment_def sql_def sql_join_def split: option.splits)

lemma flatten_operatorChunk:
  "flatten d n h (build_operatorChunk ty al) = Some (map Ch (keyword_text ty al))"
  by (simp add: build_operatorChunk_def sql_raw_def keyword_text_def)

lemma flatten_fragment_node:
  "flatten d n h (fragment (PgSetOperator ty al l r s dl j c)) =
     concat_opt
       [Some (map Ch ''(''), flatten d n h (fragment l), Some (map Ch '') ''),
        Some (map Ch (operator_keyword ty)), Some (map Ch '' ''),
        Some (map Ch (if al then ''all '' else '''')),
        Some (map Ch ''(''), flatten d n h (fragment r), Some (map Ch '')''),
        flatten d n h (orderBy_fragment c),
        flatten d n h (build_limitSql c),
        flatten d n h (build_offsetSql c)]"
  by (simp add: sql_def flatten_operatorChunk keyword_text_def flatten_limitSql flatten_offsetSql
        split: option.splits)

lemma flatten_fresh_node:
  assumes "new_PgSetOperator ty al l (Literal r) = Inr node"
  shows "flatten d n h (fragment node) =
           concat_opt [Some (map Ch ''(''), flatten d n h (fragment l), Some (map Ch '') ''),
                       Some (map Ch (keyword_text ty al)),
                       Some (map Ch ''(''), flatten d n h (fragment r), Some (map Ch '')'')]"
proof -
  obtain s dl j where node: "node = PgSetOperator ty al l r s dl j
      \<lparr>cfg_fields = soc_fields (getSetOperatorConfig l), cfg_limit = None,
       cfg_orderBy = None, cfg_offset = None\<rparr>"
    using assms by (auto simp: new_PgSetOperator_def Let_def split: if_splits)
  show ?thesis
    unfolding node flatten_fragment_node
    by (cases "flatten d n h (fragment l)"; cases "flatten d n h (fragment r)")
       (simp_all add: flatten_limitSql flatten_offsetSql flatten_orderBy_fragment
          keyword_text_def)
qed

lemma flatten_chain:
  "combine_chain ty al acc (map Literal qs) = Inr node \<Longrightarrow>
   flatten d n h (fragment acc) = Some t0 \<Longrightarrow>
   map (\<lambda>q. flatten d n h (fragment q)) qs = map Some ts \<Longrightarrow>
   flatten d n h (fragment node) = Some (chain_toks (keyword_text ty al) t0 ts)"
proof (induction qs arbitrary: acc t0 ts)
  case Nil
  then show ?case by simp
next
  case (Cons q qs)
  from Cons.prems(3) obtain t ts' where ts: "ts = t # ts'"
    and t: "flatten d n h (fragment q) = Some t"
    and rest: "map (\<lambda>q. flatten d n h (fragment q)) qs = map Some ts'"
    by (cases ts) auto
  from Cons.prems(1) obtain node1 where
    n1: "new_PgSetOperator ty al acc (Literal q) = Inr node1"
    and ch: "combine_chain ty al node1 (map Literal qs) = Inr node"
    by (auto split: sum.splits)
  have "flatten d n h (fragment node1) =
          Some (map Ch ''('' @ t0 @ map Ch '') '' @ map Ch (keyword_text ty al) @ map Ch ''('' @ t @ map Ch '')'')"
    using flatten_fresh_node [OF n1, of d n h] Cons.prems(2) t by simp
  from Cons.IH [OF ch this rest] show ?case by (simp add: ts)
qed

subsection \<open>Unfolding sets for the worked examples\<close>

lemmas example_defs =
  selectA_def selectB_def selectC_def unionAB_def exampleStore_def exampleDialect_def
  users_id_def users_name_def exampleCallback_def

lemmas free_function_defs =
  union_fn_def unionAll_def intersect_def intersectAll_def except_def exceptAll_def

lemmas method_defs =
  m_union_def m_unionAll_def m_intersect_def m_intersectAll_def m_except_def m_exceptAll_def

lemmas render_defs =
  toSQL_def sqlToQuery_def build_orderBySql_def build_limitSql_def build_offsetSql_def
  build_operatorChunk_def sql_def sql_raw_def sql_join_def rewrite_queryChunks_0

section \<open>Properties\<close>

subsection \<open>Construction and shape validation\<close>

text \<open>
  C1. Constructing a node from two queries succeeds iff the key lists of their selected
  fields are equal, name by name and in the same order; for any other pair the
  constructor fails with \<open>ShapeMismatch\<close> and produces no node. The free function
  with two operands and the fluent method on a query operand are that constructor, and
  the six free functions and six fluent methods are their instances for the three
  operators with and without ALL.
\<close>

theorem construct_iff_same_field_names:
  "((\<exists>node. new_PgSetOperator ty al l (Literal r) = Inr node) =
      (map fst (getSelectedFields l) = map fst (getSelectedFields r)))
   \<and> (map fst (getSelectedFields l) \<noteq> map fst (getSelectedFields r) \<longrightarrow>
        new_PgSetOperator ty al l (Literal r) = Inl ShapeMismatch)
   \<and> setOperator ty al l (Literal r) [] = new_PgSetOperator ty al l (Literal r)
   \<and> builder_setOperator ty al l (Literal r) = new_PgSetOperator ty al l (Literal r)
   \<and> (union_fn, unionAll, intersect, intersectAll, except, exceptAll) =
       (setOperator OpUnion False, setOperator OpUnion True,
        setOperator OpIntersect False, setOperator OpIntersect True,
        setOperator OpExcept False, setOperator OpExcept True)
   \<and> (m_union, m_unionAll, m_intersect, m_intersectAll, m_except, m_exceptAll) =
       (builder_setOperator OpUnion False, builder_setOperator OpUnion True,
        builder_setOperator OpIntersect False, builder_setOperator OpIntersect True,
        builder_setOperator OpExcept False, builder_setOperator OpExcept True)"
  by (simp add: new_PgSetOperator_Literal builder_setOperator_def free_function_defs method_defs)

text \<open>
  At \<open>{id, name}\<close> against \<open>{id}\<close> the constructor fails; at \<open>{id, name}\<close> against
  \<open>{id, name}\<close> it returns a node.
\<close>

theorem construct_iff_same_field_names_witness:
  "map fst (getSelectedFields selectA) \<noteq> map fst (getSelectedFields selectC)
   \<and> new_PgSetOperator OpUnion False selectA (Literal selectC) = Inl ShapeMismatch
   \<and> map fst (getSelectedFields selectA) = map fst (getSelectedFields selectB)
   \<and> (\<exists>node. new_PgSetOperator OpExcept True selectA (Literal selectB) = Inr node)"
  using construct_iff_same_field_names [of OpUnion False selectA selectC]
    construct_iff_same_field_names [of OpExcept True selectA selectB]
  by (simp add: example_defs)

text \<open>
  C8. A node that the constructor returns has the selected fields, the join-nullability
  map, the session and the dialect of its left operand, whatever the right operand
  carries: they are what \<^verbatim>\<open>getSetOperatorConfig\<close> of the left operand returns, which
  for a base query are its own fields, map, session and dialect and for a node the ones
  the node holds. Hence a chain keeps the fields of its first operand throughout, and the
  chain builder succeeds iff every later operand has the same keys as the first operand.
\<close>

theorem node_snapshots_left_operand:
  "(new_PgSetOperator ty al l (Literal r) = Inr node \<longrightarrow>
      getSelectedFields node = getSelectedFields l
      \<and> cfg_fields (config node) = soc_fields (getSetOperatorConfig l)
      \<and> joinsNotNullableMap node = soc_joinsNotNullableMap (getSetOperatorConfig l)
      \<and> session node = soc_session (getSetOperatorConfig l)
      \<and> dialect node = soc_dialect (getSetOperatorConfig l)
      \<and> leftSelect node = l \<and> rightSelect node = r
      \<and> cfg_fields (config node) =
          (case l of PgSelect b \<Rightarrow> bq_fields b
           | PgSetOperator ty' al' l' r' s d j c \<Rightarrow> cfg_fields c)
      \<and> joinsNotNullableMap node =
          (case l of PgSelect b \<Rightarrow> bq_joinsNotNullableMap b
           | PgSetOperator ty' al' l' r' s d j c \<Rightarrow> j)
      \<and> session node =
          (case l of PgSelect b \<Rightarrow> bq_session b
           | PgSetOperator ty' al' l' r' s d j c \<Rightarrow> s)
      \<and> dialect node =
          (case l of PgSelect b \<Rightarrow> bq_dialect b
           | PgSetOperator ty' al' l' r' s d j c \<Rightarrow> d))
   \<and> (setOperator ty al q0 (Literal q1) (map (\<lambda>q. Some (Literal q)) qs) = Inr node \<longrightarrow>
        getSelectedFields node = getSelectedFields q0)
   \<and> ((\<exists>node. setOperator ty al q0 (Literal q1) (map (\<lambda>q. Some (Literal q)) qs) = Inr node) =
        (\<forall>q \<in> set (q1 # qs). haveSameKeys (getSelectedFields q0) (getSelectedFields q)))"
proof (intro conjI impI)
  assume mk: "new_PgSetOperator ty al l (Literal r) = Inr node"
  then have node: "node = PgSetOperator ty al l r
      (soc_session (getSetOperatorConfig l)) (soc_dialect (getSetOperatorConfig l))
      (soc_joinsNotNullableMap (getSetOperatorConfig l))
      \<lparr>cfg_fields = soc_fields (getSetOperatorConfig l), cfg_limit = None,
       cfg_orderBy = None, cfg_offset = None\<rparr>"
    by (simp add: new_PgSetOperator_Literal split: if_splits)
  show "getSelectedFields node = getSelectedFields l"
    unfolding node by (simp add: soc_fields_getSelectedFields)
  show "cfg_fields (config node) = soc_fields (getSetOperatorConfig l)"
    unfolding node by simp
  show "joinsNotNullableMap node = soc_joinsNotNullableMap (getSetOperatorConfig l)"
    unfolding node by simp
  show "session node = soc_session (getSetOperatorConfig l)"
    unfolding node by simp
  show "dialect node = soc_dialect (getSetOperatorConfig l)"
    unfolding node by simp
  show "leftSelect node = l" and "rightSelect node = r"
    unfolding node by simp_all
  show "cfg_fields (config node) =
          (case l of PgSelect b \<Rightarrow> bq_fields b
           | PgSetOperator ty' al' l' r' s d j c \<Rightarrow> cfg_fields c)"
    unfolding node by (cases l) simp_all
  show "joinsNotNullableMap node =
          (case l of PgSelect b \<Rightarrow> bq_joinsNotNullableMap b
           | PgSetOperator ty' al' l' r' s d j c \<Rightarrow> j)"
    unfolding node by (cases l) simp_all
  show "session node =
          (case l of PgSelect b \<Rightarrow> bq_session b
           | PgSetOperator ty' al' l' r' s d j c \<Rightarrow> s)"
    unfolding node by (cases l) simp_all
  show "dialect node =
          (case l of PgSelect b \<Rightarrow> bq_dialect b
           | PgSetOperator ty' al' l' r' s d j c \<Rightarrow> d)"
    unfolding node by (cases l) simp_all
next
  assume "setOperator ty al q0 (Literal q1) (map (\<lambda>q. Some (Literal q)) qs) = Inr node"
  then have "combine_chain ty al q0 (Literal q1 # map Literal qs) = Inr node"
    unfolding map_Some_Literal setOperator_all_defined .
  then show "getSelectedFields node = getSelectedFields q0"
    by (rule combine_chain_fields)
next
  show "(\<exists>node. setOperator ty al q0 (Literal q1) (map (\<lambda>q. Some (Literal q)) qs) = Inr node) =
        (\<forall>q \<in> set (q1 # qs). haveSameKeys (getSelectedFields q0) (getSelectedFields q))"
    using combine_chain_succeeds_iff [of ty al q0 "q1 # qs"]
    unfolding map_Some_Literal setOperator_all_defined by simp
qed

text \<open>
  The union of a query with session 7 and a query with no session has session 7, and the
  map and dialect of the left query; a node built on that union as its left operand has
  them again; a chain of three queries with the keys of the first is built.
\<close>

theorem node_snapshots_left_operand_witness:
  "new_PgSetOperator OpUnion False selectA (Literal selectB) = Inr unionAB
   \<and> session unionAB = Some 7
   \<and> joinsNotNullableMap unionAB = [(''users'', True)]
   \<and> dialect unionAB = exampleDialect
   \<and> new_PgSetOperator OpExcept True unionAB (Literal selectB) =
       Inr (PgSetOperator OpExcept True unionAB selectB (Some 7) exampleDialect
              [(''users'', True)] (config unionAB))
   \<and> haveSameKeys (getSelectedFields selectA) (getSelectedFields selectB)
   \<and> (\<exists>node. setOperator OpUnion False selectA (Literal selectB) [Some (Literal selectB)] = Inr node)"
proof -
  have mk: "new_PgSetOperator OpUnion False selectA (Literal selectB) = Inr unionAB"
    by (simp add: new_PgSetOperator_Literal example_defs)
  have same: "\<forall>q \<in> set [selectB, selectB].
      haveSameKeys (getSelectedFields selectA) (getSelectedFields q)"
    by (simp add: haveSameKeys_iff example_defs)
  note inst = node_snapshots_left_operand [where ty = OpUnion and al = False and l = selectA
      and r = selectB and node = unionAB and ?q0.0 = selectA and ?q1.0 = selectB
      and qs = "[selectB]"]
  from inst mk have snap: "session unionAB =
        (case selectA of PgSelect b \<Rightarrow> bq_session b
         | PgSetOperator ty' al' l' r' s d j c \<Rightarrow> s)
      \<and> joinsNotNullableMap unionAB =
        (case selectA of PgSelect b \<Rightarrow> bq_joinsNotNullableMap b
         | PgSetOperator ty' al' l' r' s d j c \<Rightarrow> j)
      \<and> dialect unionAB =
        (case selectA of PgSelect b \<Rightarrow> bq_dialect b
         | PgSetOperator ty' al' l' r' s d j c \<Rightarrow> d)"
    by blast
  obtain node2 where mk2: "new_PgSetOperator OpExcept True unionAB (Literal selectB) = Inr node2"
    by (simp add: new_PgSetOperator_Literal example_defs)
  note inst2 = node_snapshots_left_operand [where ty = OpExcept and al = True and l = unionAB
      and r = selectB and node = node2 and ?q0.0 = selectA and ?q1.0 = selectB
      and qs = "[selectB]"]
  from inst2 mk2 have snap2: "session node2 =
        (case unionAB of PgSelect b \<Rightarrow> bq_session b
         | PgSetOperator ty' al' l' r' s d j c \<Rightarrow> s)
      \<and> joinsNotNullableMap node2 =
        (case unionAB of PgSelect b \<Rightarrow> bq_joinsNotNullableMap b
         | PgSetOperator ty' al' l' r' s d j c \<Rightarrow> j)
      \<and> dialect node2 =
        (case unionAB of PgSelect b \<Rightarrow> bq_dialect b
         | PgSetOperator ty' al' l' r' s d j c \<Rightarrow> d)
      \<and> cfg_fields (config node2) =
        (case unionAB of PgSelect b \<Rightarrow> bq_fields b
         | PgSetOperator ty' al' l' r' s d j c \<Rightarrow> cfg_fields c)"
    by blast
  have n2: "node2 = PgSetOperator OpExcept True unionAB selectB (Some 7) exampleDialect
              [(''users'', True)] (config unionAB)"
    using mk2 snap2 by (auto simp: new_PgSetOperator_Literal unionAB_def split: if_splits)
  from inst same
  have ex: "\<exists>node. setOperator OpUnion False selectA (Literal selectB)
      (map (\<lambda>q. Some (Literal q)) [selectB]) = Inr node"
    by blast
  show ?thesis using mk snap same ex mk2 n2 by (simp add: selectA_def)
qed

subsection \<open>The chain builder\<close>

text \<open>
  C5. The free function applied to the operands \<open>q0, q1, ..., qn\<close> is the left fold of
  the constructor over them, for the one operator and ALL flag it was made with. When
  the fold returns a node, the text of that node is \<open>((q0) op (q1)) op (q2) ...\<close> over
  the texts of the operands, with a pair of parentheses at every level.
\<close>

theorem chain_builder_left_deep:
  "setOperator ty al q0 (Literal q1) (map (\<lambda>q. Some (Literal q)) qs) =
     combine_chain ty al q0 (map Literal (q1 # qs))
   \<and> (combine_chain ty al q0 (map Literal (q1 # qs)) = Inr node \<longrightarrow>
        map (\<lambda>q. flatten d n h' (fst (getSQL q h))) (q0 # q1 # qs) = map Some (t0 # ts) \<longrightarrow>
        flatten d n h' (fst (getSQL node h)) = Some (chain_toks (keyword_text ty al) t0 ts))"
proof (intro conjI impI)
  show "setOperator ty al q0 (Literal q1) (map (\<lambda>q. Some (Literal q)) qs) =
          combine_chain ty al q0 (map Literal (q1 # qs))"
    unfolding map_Some_Literal setOperator_all_defined by simp
next
  assume ch: "combine_chain ty al q0 (map Literal (q1 # qs)) = Inr node"
    and fl: "map (\<lambda>q. flatten d n h' (fst (getSQL q h))) (q0 # q1 # qs) = map Some (t0 # ts)"
  from fl have t0: "flatten d n h' (fragment q0) = Some t0"
    and rest: "map (\<lambda>q. flatten d n h' (fragment q)) (q1 # qs) = map Some ts"
    by (simp_all add: getSQL_eq)
  from flatten_chain [OF ch t0 rest]
  show "flatten d n h' (fst (getSQL node h)) = Some (chain_toks (keyword_text ty al) t0 ts)"
    by (simp add: getSQL_eq)
qed

text \<open>Three operands: the text is \<open>((select A) union (select B)) union (select B)\<close>.\<close>

theorem chain_builder_left_deep_witness:
  "setOperator OpUnion False selectA (Literal selectB) [Some (Literal selectB)] =
     combine_chain OpUnion False selectA [Literal selectB, Literal selectB]
   \<and> (\<exists>node. combine_chain OpUnion False selectA [Literal selectB, Literal selectB] = Inr node
        \<and> flatten exampleDialect 0 exampleStore (fst (getSQL node exampleStore)) =
            Some (map Ch ''((select A) union (select B)) union (select B)''))"
proof -
  obtain node where
    node: "combine_chain OpUnion False selectA [Literal selectB, Literal selectB] = Inr node"
    by (simp add: new_PgSetOperator_Literal example_defs)
  have fl: "map (\<lambda>q. flatten exampleDialect 0 exampleStore (fst (getSQL q exampleStore)))
              [selectA, selectB, selectB] =
            map Some [map Ch ''select A'', map Ch ''select B'', map Ch ''select B'']"
    by (simp add: example_defs)
  from chain_builder_left_deep [of OpUnion False selectA selectB "[selectB]" node
      exampleDialect 0 exampleStore exampleStore "map Ch ''select A''"
      "[map Ch ''select B'', map Ch ''select B'']"] node fl
  show ?thesis by (simp add: keyword_text_def)
qed

text \<open>
  C7, as the code has it. A call of the free function whose rest list holds an undefined
  entry always fails and returns no node. When the first rest entry is the undefined one,
  it fails with \<open>MissingOperand\<close> before any node is constructed. In general the
  operands that come before the one preceding the first undefined entry are combined
  first: the call fails with the error of that combination if it has one, and with
  \<open>MissingOperand\<close> otherwise.
\<close>

theorem undefined_operand_fails:
  "(None \<in> set rest \<longrightarrow> isl (setOperator ty al l r rest))
   \<and> setOperator ty al l r (None # rest) = Inl MissingOperand
   \<and> setOperator ty al l r (map Some ss @ None # post) =
       (case combine_chain ty al l (butlast (r # ss)) of
          Inl e \<Rightarrow> Inl e
        | Inr node \<Rightarrow> Inl MissingOperand)"
  using setOperator_undefined_fails [of rest ty al l r]
    setOperator_first_undefined [of ty al l r ss post]
  by simp

text \<open>
  With compatible first operands the undefined entry is reported, although the operand
  just before it has other fields.
\<close>

theorem undefined_operand_fails_witness:
  "None \<in> set [Some (Literal selectB), None]
   \<and> isl (setOperator OpUnion False selectA (Literal selectB) [Some (Literal selectB), None])
   \<and> setOperator OpUnion False selectA (Literal selectB) [Some (Literal selectC), None] =
       Inl MissingOperand"
  using undefined_operand_fails [of "[Some (Literal selectB), None]" OpUnion False selectA
      "Literal selectB" "[Literal selectC]" "[]"]
  by (simp add: new_PgSetOperator_Literal example_defs)

text \<open>
  C7 as stated fails: \<^verbatim>\<open>union(selectA, selectC, selectB, undefined)\<close> first constructs the
  node of \<open>selectA\<close> and \<open>selectC\<close>, whose fields differ, and fails with \<open>ShapeMismatch\<close>
  and not with \<open>MissingOperand\<close>.
\<close>

theorem undefined_operand_counterexample:
  "union_fn selectA (Literal selectC) [Some (Literal selectB), None] = Inl ShapeMismatch"
  by (simp add: free_function_defs new_PgSetOperator_Literal example_defs)

subsection \<open>Function operands\<close>

text \<open>
  C6, as the code has it. A fluent method that is given a function calls it with the six
  helpers before the constructor runs, so an error of the function is the error of the
  call and its result is the right operand that is validated; given a query, it passes
  the query on. The helpers are the six free functions. A free function does not resolve
  a function operand: with a function as an operand in any position after the first, the
  call fails, with \<open>TypeError\<close> when the function is the only operand after the first.
\<close>

theorem fluent_methods_resolve_callbacks:
  "builder_setOperator ty al this (Deferred f) =
     (case f getPgSetOperators of
        Inl e \<Rightarrow> Inl e
      | Inr q \<Rightarrow> new_PgSetOperator ty al this (Literal q))
   \<and> builder_setOperator ty al this (Literal q) = new_PgSetOperator ty al this (Literal q)
   \<and> getPgSetOperators =
       \<lparr>reg_union = typed union_fn, reg_unionAll = typed unionAll,
        reg_intersect = typed intersect, reg_intersectAll = typed intersectAll,
        reg_except = typed except, reg_exceptAll = typed exceptAll\<rparr>
   \<and> setOperator ty al this (Deferred f) [] = Inl TypeError
   \<and> (r = Deferred f \<or> Some (Deferred f) \<in> set rest \<longrightarrow> isl (setOperator ty al this r rest))"
  using setOperator_function_fails [of r f rest ty al this]
  by (simp add: builder_setOperator_def getPgSetOperators_def new_PgSetOperator_def)

text \<open>
  \<^verbatim>\<open>selectA.exceptAll(({ intersect }) => intersect(selectB, selectB))\<close> validates
  \<open>selectA\<close> against the nested node; the same function in the rest list of \<^verbatim>\<open>union\<close>
  makes the call fail.
\<close>

theorem fluent_methods_resolve_callbacks_witness:
  "m_exceptAll selectA (Deferred exampleCallback) =
     new_PgSetOperator OpExcept True selectA
       (Literal (PgSetOperator OpIntersect False selectB selectB None
          \<lparr>escapeName = (\<lambda>n. n), escapeParam = (\<lambda>i. ''?'')\<rparr> [(''admins'', False)]
          \<lparr>cfg_fields = [(''id'', ColumnChunk (PgColumn ''admins'' ''id'')),
                         (''name'', ColumnChunk (PgColumn ''admins'' ''name''))],
           cfg_limit = None, cfg_orderBy = None, cfg_offset = None\<rparr>))
   \<and> (Literal selectB = Deferred exampleCallback
        \<or> Some (Deferred exampleCallback) \<in> set [Some (Deferred exampleCallback)])
   \<and> isl (setOperator OpUnion False selectA (Literal selectB) [Some (Deferred exampleCallback)])"
proof -
  note inst = fluent_methods_resolve_callbacks [where ty = OpExcept and al = True
      and this = selectA and f = exampleCallback and q = selectB
      and r = "Literal selectB" and rest = "[Some (Deferred exampleCallback)]"]
  note inst' = fluent_methods_resolve_callbacks [where ty = OpUnion and al = False
      and this = selectA and f = exampleCallback and q = selectB
      and r = "Literal selectB" and rest = "[Some (Deferred exampleCallback)]"]
  have cb: "exampleCallback getPgSetOperators =
      Inr (PgSetOperator OpIntersect False selectB selectB None
          \<lparr>escapeName = (\<lambda>n. n), escapeParam = (\<lambda>i. ''?'')\<rparr> [(''admins'', False)]
          \<lparr>cfg_fields = [(''id'', ColumnChunk (PgColumn ''admins'' ''id'')),
                         (''name'', ColumnChunk (PgColumn ''admins'' ''name''))],
           cfg_limit = None, cfg_orderBy = None, cfg_offset = None\<rparr>)"
    by (simp add: exampleCallback_def getPgSetOperators_def typed_def intersect_def
          new_PgSetOperator_Literal selectB_def)
  have first: "m_exceptAll selectA (Deferred exampleCallback) =
      (case exampleCallback getPgSetOperators of
         Inl e \<Rightarrow> Inl e
       | Inr q \<Rightarrow> new_PgSetOperator OpExcept True selectA (Literal q))"
    unfolding m_exceptAll_def using inst by (rule conjunct1)
  have hyp: "Literal selectB = Deferred exampleCallback
      \<or> Some (Deferred exampleCallback) \<in> set [Some (Deferred exampleCallback)]"
    by simp
  have last: "isl (setOperator OpUnion False selectA (Literal selectB)
      [Some (Deferred exampleCallback)])"
    using inst' hyp by blast
  show ?thesis using first hyp last by (simp add: cb)
qed

text \<open>
  C6 as stated fails for the free functions: \<^verbatim>\<open>union(selectA, cb)\<close> with a function \<open>cb\<close>
  fails with \<open>TypeError\<close>, although the query that \<open>cb\<close> returns for the helpers is a
  node and the fluent method \<^verbatim>\<open>selectA.union(cb)\<close> succeeds.
\<close>

theorem free_function_callback_counterexample:
  "union_fn selectA (Deferred exampleCallback) [] = Inl TypeError
   \<and> exampleCallback getPgSetOperators =
       new_PgSetOperator OpIntersect False selectB (Literal selectB)
   \<and> \<not> isl (new_PgSetOperator OpIntersect False selectB (Literal selectB))
   \<and> \<not> isl (m_union selectA (Deferred exampleCallback))"
  by (simp add: free_function_defs method_defs builder_setOperator_def getPgSetOperators_def
        typed_def new_PgSetOperator_Literal new_PgSetOperator_def [of _ _ _ "Deferred _"]
        example_defs)

subsection \<open>Rendering\<close>

text \<open>
  C4. The text of a node is, in this order: an opening parenthesis, the text of the left
  operand, a closing parenthesis and a space, the lower-case operator keyword (\<open>union\<close>,
  \<open>intersect\<close> or \<open>except\<close>) and a space, the token \<open>all \<close> exactly when the ALL flag
  is set, the text of the right
  operand between parentheses, then the ORDER BY part, the LIMIT part and the OFFSET
  part. The ORDER BY part is empty or begins with \<open> order by \<close>, the LIMIT part is
  empty or is \<open> limit \<close> and a parameter, the OFFSET part is empty or is \<open> offset \<close>
  and a parameter.
\<close>

theorem getSQL_fixed_order:
  "flatten d n h' (fst (getSQL (PgSetOperator ty al l r s dl j c) h)) =
     concat_opt
       [Some (map Ch ''(''), flatten d n h' (fst (getSQL l h)), Some (map Ch '') ''),
        Some (map Ch (case ty of OpUnion \<Rightarrow> ''union'' | OpIntersect \<Rightarrow> ''intersect''
                      | OpExcept \<Rightarrow> ''except'')),
        Some (map Ch '' ''),
        Some (map Ch (if al then ''all '' else '''')),
        Some (map Ch ''(''), flatten d n h' (fst (getSQL r h)), Some (map Ch '')''),
        flatten d n h' (fst (build_orderBySql c h)),
        flatten d n h' (build_limitSql c),
        flatten d n h' (build_offsetSql c)]
   \<and> flatten d n h' (fst (build_orderBySql c h)) =
       (case cfg_orderBy c of
          None \<Rightarrow> Some []
        | Some obs \<Rightarrow>
            if obs = [] then Some []
            else map_option (\<lambda>ts. map Ch '' order by '' @ ts @ map Ch '' '')
                   (flatten_list d n h' (join_chunks (map orderBy_value obs) (sql ['', ''] []))))
   \<and> flatten d n h' (build_limitSql c) =
       Some (case cfg_limit c of
               None \<Rightarrow> []
             | Some v \<Rightarrow> if truthy (Some v) then map Ch '' limit '' @ [Hole v] else [])
   \<and> flatten d n h' (build_offsetSql c) =
       Some (case cfg_offset c of
               None \<Rightarrow> []
             | Some v \<Rightarrow> if truthy (Some v) then map Ch '' offset '' @ [Hole v] else [])"
proof -
  have kw: "operator_keyword ty =
      (case ty of OpUnion \<Rightarrow> ''union'' | OpIntersect \<Rightarrow> ''intersect'' | OpExcept \<Rightarrow> ''except'')"
    by (cases ty) simp_all
  show ?thesis
    using flatten_fragment_node [of d n h' ty al l r s dl j c]
    unfolding kw
    by (simp only: getSQL_eq build_orderBySql_eq fst_conv fragment.simps
          flatten_orderBy_fragment flatten_limitSql flatten_offsetSql simp_thms)
qed

text \<open>
  \<^verbatim>\<open>selectA.exceptAll(selectB).orderBy(users.id).limit(10).offset(5)\<close>: the pieces come in
  the fixed order, whatever the order of the modifier calls. The other keywords:
  \<open>intersect all\<close>, \<open>intersect\<close> and \<open>union\<close> nodes without modifiers.
\<close>

theorem getSQL_fixed_order_witness:
  "flatten exampleDialect (Suc 0) exampleStore
     (fst (getSQL (orderBy [OrdColumn users_id] (limit (NumberV 10) (offset (NumberV 5)
        (PgSetOperator OpExcept True selectA selectB None exampleDialect []
           \<lparr>cfg_fields = [], cfg_limit = None, cfg_orderBy = None, cfg_offset = None\<rparr>))))
        exampleStore)) =
   Some (map Ch ''(select A) except all (select B) order by id  limit '' @ [Hole (NumberV 10)]
         @ map Ch '' offset '' @ [Hole (NumberV 5)])
   \<and> flatten exampleDialect 0 exampleStore
       (fst (getSQL (PgSetOperator OpIntersect True selectA selectB None exampleDialect []
           \<lparr>cfg_fields = [], cfg_limit = None, cfg_orderBy = None, cfg_offset = None\<rparr>)
        exampleStore)) =
      Some (map Ch ''(select A) intersect all (select B)'')
   \<and> flatten exampleDialect 0 exampleStore
       (fst (getSQL (PgSetOperator OpIntersect False selectA selectB None exampleDialect []
           \<lparr>cfg_fields = [], cfg_limit = None, cfg_orderBy = None, cfg_offset = None\<rparr>)
        exampleStore)) =
      Some (map Ch ''(select A) intersect (select B)'')
   \<and> flatten exampleDialect 0 exampleStore (fst (getSQL unionAB exampleStore)) =
      Some (map Ch ''(select A) union (select B)'')"
  using getSQL_fixed_order [of exampleDialect "Suc 0" exampleStore OpExcept True selectA selectB
      None exampleDialect "[]"
      "\<lparr>cfg_fields = [], cfg_limit = Some (NumberV 10), cfg_orderBy = Some [OrdColumn users_id],
        cfg_offset = Some (NumberV 5)\<rparr>" exampleStore]
    getSQL_fixed_order [of exampleDialect 0 exampleStore OpIntersect True selectA selectB
      None exampleDialect "[]"
      "\<lparr>cfg_fields = [], cfg_limit = None, cfg_orderBy = None, cfg_offset = None\<rparr>" exampleStore]
    getSQL_fixed_order [of exampleDialect 0 exampleStore OpIntersect False selectA selectB
      None exampleDialect "[]"
      "\<lparr>cfg_fields = [], cfg_limit = None, cfg_orderBy = None, cfg_offset = None\<rparr>" exampleStore]
    getSQL_fixed_order [of exampleDialect 0 exampleStore OpUnion False selectA selectB
      "Some 7" exampleDialect "[(''users'', True)]" "config unionAB" exampleStore]
  by (simp add: example_defs sql_def sql_raw_def)

text \<open>
  C3 fails on the code at a limit or an offset of 0. Lines 278 and 282 test the value for
  truthiness, and the number 0 is falsy: after \<^verbatim>\<open>.limit(0).offset(0)\<close> the query has no
  LIMIT and no OFFSET part, while \<^verbatim>\<open>.limit(10).offset(5)\<close> gives both.
\<close>

theorem zero_limit_and_offset_dropped:
  "fst (toSQL 0 (offset (NumberV 0) (limit (NumberV 0) unionAB)) exampleStore) =
     Some \<lparr>q_sql = ''(select A) union (select B)'', q_params = []\<rparr>
   \<and> fst (toSQL 0 (offset (NumberV 5) (limit (NumberV 10) unionAB)) exampleStore) =
       Some \<lparr>q_sql = ''(select A) union (select B) limit $ offset $'',
             q_params = [NumberV 10, NumberV 5]\<rparr>"
  by (simp add: render_defs example_defs)

text \<open>
  C2 fails on the code at a column below the top level. The loop of lines 261 to 267
  visits the chunks of the expression itself and nothing below them: for
  \<^verbatim>\<open>orderBy(sql`${sql`lower(${users.name})`} desc`)\<close> the column keeps its table in the
  text and the expression in the store is left as it was, while for
  \<^verbatim>\<open>orderBy(sql`${users.name} desc`)\<close> the bare name is written.
\<close>

theorem nested_column_stays_qualified:
  "toSQL (Suc 0) (orderBy [OrdSQL 1] unionAB) exampleStore =
     (Some \<lparr>q_sql = ''(select A) union (select B) order by lower(''
                      @ quoted ''users'' @ ''.'' @ quoted ''name'' @ '') desc '',
            q_params = []\<rparr>,
      exampleStore)
   \<and> fst (toSQL (Suc 0) (orderBy [OrdSQL 0] unionAB) exampleStore) =
       Some \<lparr>q_sql = ''(select A) union (select B) order by name desc '', q_params = []\<rparr>"
  by (simp add: render_defs example_defs quoted_def fun_upd_twist)

subsection \<open>Rendering and the store\<close>

text \<open>
  C9. A second call of \<^verbatim>\<open>getSQL\<close>, made in the store that the first call left, returns
  the fragment of the first call and leaves the store as it is; so does a second call of
  \<^verbatim>\<open>toSQL\<close>, whose query (or failure to flatten) is that of the first call.
\<close>

theorem render_twice_identical:
  "getSQL q (snd (getSQL q h)) = getSQL q h
   \<and> toSQL n q (snd (toSQL n q h)) = toSQL n q h"
  by (simp add: toSQL_def getSQL_eq rewrite_at_rewrite_at)

text \<open>
  Two calls on a node ordered by \<^verbatim>\<open>sql`${users.name} desc`\<close>: both give the same text,
  with the bare name.
\<close>

theorem render_twice_identical_witness:
  "toSQL (Suc 0) (orderBy [OrdSQL 0] unionAB)
     (snd (toSQL (Suc 0) (orderBy [OrdSQL 0] unionAB) exampleStore)) =
   toSQL (Suc 0) (orderBy [OrdSQL 0] unionAB) exampleStore
   \<and> fst (toSQL (Suc 0) (orderBy [OrdSQL 0] unionAB) exampleStore) =
       Some \<lparr>q_sql = ''(select A) union (select B) order by name desc '', q_params = []\<rparr>"
  using render_twice_identical [of "orderBy [OrdSQL 0] unionAB" exampleStore "Suc 0"]
  by (simp add: render_defs example_defs)

text \<open>
  C10. When the ORDER BY list of a node holds an \<^verbatim>\<open>SQL\<close> expression, \<^verbatim>\<open>getSQL\<close> leaves the
  caller's expression with every column among its own chunks replaced by the raw
  fragment of the bare column name and with its other chunks as they were. If there was
  such a column the expression has changed, no column is left among its chunks, and a
  later call finds and leaves it in that state.
\<close>

theorem getSQL_mutates_orderBy_expression:
  "cfg_orderBy c = Some obs \<Longrightarrow> OrdSQL a \<in> set obs \<Longrightarrow>
     snd (getSQL (PgSetOperator ty al l r s d j c) h) a = map bare_column (h a)
     \<and> (ColumnChunk col \<in> set (h a) \<longrightarrow>
          snd (getSQL (PgSetOperator ty al l r s d j c) h) a \<noteq> h a)
     \<and> ColumnChunk col \<notin> set (snd (getSQL (PgSetOperator ty al l r s d j c) h) a)
     \<and> snd (getSQL (PgSetOperator ty al l r s d j c)
               (snd (getSQL (PgSetOperator ty al l r s d j c) h))) a =
         snd (getSQL (PgSetOperator ty al l r s d j c) h) a"
proof -
  assume ob: "cfg_orderBy c = Some obs" and mem: "OrdSQL a \<in> set obs"
  then have tg: "a \<in> targets (PgSetOperator ty al l r s d j c)"
    by (simp add: orderBy_targets_def sql_targets_mem)
  have eq: "snd (getSQL (PgSetOperator ty al l r s d j c) h) a = map bare_column (h a)"
    using tg by (simp only: getSQL_eq snd_conv rewrite_at_def if_True)
  have again: "snd (getSQL (PgSetOperator ty al l r s d j c)
                     (snd (getSQL (PgSetOperator ty al l r s d j c) h))) a =
               snd (getSQL (PgSetOperator ty al l r s d j c) h) a"
    by (simp add: getSQL_eq rewrite_at_rewrite_at)
  show ?thesis
    unfolding again unfolding eq
    using map_bare_column_changes [of col "h a"] no_column_after_rewrite [of col "h a"]
    by simp
qed

text \<open>
  The expression \<^verbatim>\<open>sql`${users.name} desc`\<close> at address 0 holds the raw fragment \<open>name\<close>
  in place of the column after one call.
\<close>

theorem getSQL_mutates_orderBy_expression_witness:
  "cfg_orderBy (config (orderBy [OrdSQL 0] unionAB)) = Some [OrdSQL 0]
   \<and> OrdSQL 0 \<in> set [OrdSQL 0]
   \<and> ColumnChunk users_name \<in> set (exampleStore 0)
   \<and> snd (getSQL (orderBy [OrdSQL 0] unionAB) exampleStore) 0 =
       [StringChunk '''', SQLChunk [StringChunk ''name''], StringChunk '' desc'']
   \<and> snd (getSQL (orderBy [OrdSQL 0] unionAB) exampleStore) 0 \<noteq> exampleStore 0"
proof -
  have ob: "cfg_orderBy (config (orderBy [OrdSQL 0] unionAB)) = Some [OrdSQL 0]"
    by (simp add: unionAB_def)
  have mem: "OrdSQL 0 \<in> set [OrdSQL 0]" by simp
  have col: "ColumnChunk users_name \<in> set (exampleStore 0)"
    by (simp add: exampleStore_def)
  have node: "orderBy [OrdSQL 0] unionAB =
      PgSetOperator OpUnion False selectA selectB (Some 7) exampleDialect [(''users'', True)]
        (config (orderBy [OrdSQL 0] unionAB))"
    by (simp add: unionAB_def)
  from getSQL_mutates_orderBy_expression [OF ob mem, of OpUnion False selectA selectB "Some 7"
      exampleDialect "[(''users'', True)]" exampleStore users_name] col
  have "snd (getSQL (orderBy [OrdSQL 0] unionAB) exampleStore) 0 = map bare_column (exampleStore 0)"
    and "snd (getSQL (orderBy [OrdSQL 0] unionAB) exampleStore) 0 \<noteq> exampleStore 0"
    unfolding node [symmetric] by blast+
  then show ?thesis using ob mem col
    by (simp add: exampleStore_def users_name_def sql_raw_def)
qed

end
